theory Spec2Isabelle
  imports Complex_Main "HOL-Library.Monad_Syntax" "HOL-Library.AList" "HOL-Library.Sublist"
begin

section \<open>The roadmap dashboard script (app.py)\<close>

text \<open>
  The repository is one script, run top to bottom on every interaction. It reads an
  uploaded table into a data frame, checks its columns, parses four date columns, derives
  two boolean columns, filters the rows, computes five KPI scalars and hands the result to
  the dashboard and plotting libraries.

  The embedding keeps the script's shape. A data frame is a row index together with named
  columns, a column (a Series) is a list of cells, and the script's column operations
  (\<open>.str.lower()\<close>, \<open>.eq\<close>, \<open>&\<close>, \<open>\<le>\<close>, \<open>.isin\<close>, boolean indexing, \<open>.sum()\<close>, \<open>.mean()\<close>)
  are element-wise functions on those lists. Reading a column that is not there is the one
  exception of the data frame library the model keeps (\<open>None\<close> in the option monad): it is
  the failure the script's column check exists to prevent. The other exceptions the
  libraries can raise on their own on columns of an unexpected type (the \<open>.str\<close> accessor on
  a Status column that holds no text at all, a sum over a column of text, an order between
  a text and a number) are outside the model, which gives every cell operation a value: the
  statements below that a run succeeds are statements about missing columns and about the
  script's own exits. Numbers are rationals: the script's floats are not modelled bit by
  bit. A string is a list of 8-bit characters (code points below 256).
\<close>

subsection \<open>Cells, columns, data frames\<close>

text \<open>
  A cell of the uploaded table: text, a number, a boolean, a timestamp (nanoseconds since
  the epoch, as \<open>datetime64[ns]\<close>), or the missing value (\<open>NaN\<close>, \<open>None\<close>, \<open>NaT\<close>).
\<close>

datatype cell = Text string | Num rat | Flag bool | Date int | NA

type_synonym series = "cell list"

record dataframe =
  index :: "nat list"
  cols :: "(string \<times> series) list"

definition columns :: "dataframe \<Rightarrow> string list" where
  "columns df = map fst (cols df)"

text \<open>\<open>df[c]\<close>: the column named \<open>c\<close>; \<open>None\<close> is the library's KeyError.\<close>

definition getitem :: "dataframe \<Rightarrow> string \<Rightarrow> series option" where
  "getitem df c = map_of (cols df) c"

text \<open>\<open>df[c] = s\<close>: replaces the column in place, or appends a new last column.\<close>

definition setitem :: "dataframe \<Rightarrow> string \<Rightarrow> series \<Rightarrow> dataframe" where
  "setitem df c s = df\<lparr>cols := AList.update c s (cols df)\<rparr>"

text \<open>\<open>len(df)\<close> is the length of the index.\<close>

definition len :: "dataframe \<Rightarrow> nat" where
  "len df = length (index df)"

text \<open>A well-formed frame: every column has one cell per index entry.\<close>

definition wf_frame :: "dataframe \<Rightarrow> bool" where
  "wf_frame df = list_all (\<lambda>(c, s). length s = len df) (cols df)"

subsection \<open>Element-wise column operations\<close>

text \<open>
  Python's \<open>str.lower\<close> on code points below 256: the ASCII capitals and the Latin-1
  capitals (all of U+00C0..U+00DE but the multiplication sign U+00D7) move up by 32.
\<close>

definition lower_char :: "char \<Rightarrow> char" where
  "lower_char c =
     (let n = (of_char c :: nat)
      in if (65 \<le> n \<and> n \<le> 90) \<or> (192 \<le> n \<and> n \<le> 222 \<and> n \<noteq> 215)
         then char_of (n + 32) else c)"

definition lower :: "string \<Rightarrow> string" where
  "lower s = map lower_char s"

text \<open>\<open>Series.str.lower()\<close>: lower-cases text, and gives the missing value for any other cell.\<close>

fun str_lower_cell :: "cell \<Rightarrow> cell" where
  "str_lower_cell (Text s) = Text (lower s)"
| "str_lower_cell _ = NA"

definition str_lower :: "series \<Rightarrow> series" where
  "str_lower s = map str_lower_cell s"

text \<open>\<open>Series.eq(v)\<close>: element-wise equality with a scalar; a missing value equals nothing.\<close>

definition eq_s :: "series \<Rightarrow> cell \<Rightarrow> series" where
  "eq_s s v = map (\<lambda>c. Flag (c \<noteq> NA \<and> c = v)) s"

text \<open>
  \<open>a & b\<close> on two boolean columns. The script only ever combines boolean columns, so the
  last equation is never reached from it.
\<close>

fun and_cell :: "cell \<Rightarrow> cell \<Rightarrow> cell" where
  "and_cell (Flag a) (Flag b) = Flag (a \<and> b)"
| "and_cell _ _ = NA"

definition and_s :: "series \<Rightarrow> series \<Rightarrow> series" where
  "and_s a b = map2 and_cell a b"

text \<open>
  \<open>a <= b\<close> on two timestamp columns: a comparison in which either side is missing
  (\<open>NaT\<close>) is false.
\<close>

fun le_cell :: "cell \<Rightarrow> cell \<Rightarrow> cell" where
  "le_cell (Date a) (Date b) = Flag (a \<le> b)"
| "le_cell _ _ = Flag False"

definition le_s :: "series \<Rightarrow> series \<Rightarrow> series" where
  "le_s a b = map2 le_cell a b"

text \<open>\<open>Series.isin(values)\<close>: element-wise membership in a list of values.\<close>

definition isin :: "series \<Rightarrow> cell list \<Rightarrow> series" where
  "isin s vals = map (\<lambda>c. Flag (c \<in> set vals)) s"

text \<open>\<open>Series.notna()\<close>, \<open>Series.any()\<close>, \<open>Series.dropna()\<close>, \<open>Series.unique()\<close> (first occurrences, in order).\<close>

definition notna :: "series \<Rightarrow> series" where
  "notna s = map (\<lambda>c. Flag (c \<noteq> NA)) s"

definition any_s :: "series \<Rightarrow> bool" where
  "any_s s = (Flag True \<in> set s)"

definition dropna_s :: "series \<Rightarrow> series" where
  "dropna_s s = filter (\<lambda>c. c \<noteq> NA) s"

definition unique :: "'a list \<Rightarrow> 'a list" where
  "unique s = rev (remdups (rev s))"

text \<open>
  Boolean indexing \<open>df[mask]\<close>: the rows whose mask cell is true, with their index labels,
  in every column.
\<close>

definition select_rows :: "'a list \<Rightarrow> series \<Rightarrow> 'a list" where
  "select_rows xs msk = map fst (filter (\<lambda>(x, m). m = Flag True) (zip xs msk))"

definition loc_mask :: "dataframe \<Rightarrow> series \<Rightarrow> dataframe" where
  "loc_mask df msk =
     \<lparr>index = select_rows (index df) msk,
      cols = map (\<lambda>(c, s). (c, select_rows s msk)) (cols df)\<rparr>"

text \<open>
  \<open>df.dropna(subset=cs)\<close>: the rows that have a value in every column of \<open>cs\<close>.
\<close>

fun notna_all :: "dataframe \<Rightarrow> string list \<Rightarrow> series option" where
  "notna_all df [] = Some (replicate (len df) (Flag True))"
| "notna_all df (c # cs) = do {
     s \<leftarrow> getitem df c;
     m \<leftarrow> notna_all df cs;
     Some (and_s (notna s) m)
   }"

definition dropna :: "dataframe \<Rightarrow> string list \<Rightarrow> dataframe option" where
  "dropna df cs = do { m \<leftarrow> notna_all df cs; Some (loc_mask df m) }"

text \<open>\<open>df.empty\<close>: no rows, or no columns.\<close>

definition empty_df :: "dataframe \<Rightarrow> bool" where
  "empty_df df = (index df = [] \<or> cols df = [])"

subsection \<open>Numbers\<close>

text \<open>A float is a rational or \<open>NaN\<close>.\<close>

datatype pyfloat = Fin rat | NaN

text \<open>The numeric value of a cell, for \<open>sum\<close> and \<open>mean\<close>, which skip missing values.\<close>

fun num_of :: "cell \<Rightarrow> rat option" where
  "num_of (Num r) = Some r"
| "num_of (Flag b) = Some (if b then 1 else 0)"
| "num_of _ = None"

definition sum_s :: "series \<Rightarrow> rat" where
  "sum_s s = sum_list (map (\<lambda>c. case num_of c of Some r \<Rightarrow> r | None \<Rightarrow> 0) s)"

definition count_s :: "series \<Rightarrow> nat" where
  "count_s s = length (filter (\<lambda>c. num_of c \<noteq> None) s)"

definition mean_s :: "series \<Rightarrow> pyfloat" where
  "mean_s s = (if count_s s = 0 then NaN else Fin (sum_s s / of_nat (count_s s)))"

text \<open>\<open>int(x)\<close> truncates towards zero.\<close>

definition py_int :: "rat \<Rightarrow> int" where
  "py_int x = (if 0 \<le> x then \<lfloor>x\<rfloor> else \<lceil>x\<rceil>)"

text \<open>Rounding to the nearest integer, ties to the even one.\<close>

definition round_half_even :: "rat \<Rightarrow> int" where
  "round_half_even x =
     (let f = \<lfloor>x\<rfloor>; d = x - of_int f
      in if d < 1 / 2 then f else if 1 / 2 < d then f + 1 else if even f then f else f + 1)"

text \<open>\<open>round(x, 1)\<close>: one decimal.\<close>

fun round1 :: "pyfloat \<Rightarrow> pyfloat" where
  "round1 (Fin x) = Fin (of_int (round_half_even (x * 10)) / 10)"
| "round1 NaN = NaN"

fun times100 :: "pyfloat \<Rightarrow> pyfloat" where
  "times100 (Fin x) = Fin (100 * x)"
| "times100 NaN = NaN"

subsection \<open>Formatting\<close>

definition digit_char :: "nat \<Rightarrow> char" where
  "digit_char d = char_of (48 + d)"

fun str_nat :: "nat \<Rightarrow> string" where
  "str_nat n = (if n < 10 then [digit_char n] else str_nat (n div 10) @ [digit_char (n mod 10)])"

text \<open>The thousands separator of the format \<open>,\<close>: a comma before every group of three digits.\<close>

fun group3_rev :: "string \<Rightarrow> string" where
  "group3_rev (a # b # c # d # ds) = a # b # c # CHR '','' # group3_rev (d # ds)"
| "group3_rev ds = ds"

definition group3 :: "string \<Rightarrow> string" where
  "group3 ds = rev (group3_rev (rev ds))"

text \<open>\<open>str(n)\<close> and \<open>f"{n:,}"\<close> for an integer.\<close>

definition str_int :: "int \<Rightarrow> string" where
  "str_int n = (if n < 0 then ''-'' else []) @ str_nat (nat \<bar>n\<bar>)"

definition fmt_int_grouped :: "int \<Rightarrow> string" where
  "fmt_int_grouped n = (if n < 0 then ''-'' else []) @ group3 (str_nat (nat \<bar>n\<bar>))"

text \<open>
  \<open>f"{x:.1f}"\<close> and \<open>f"{x:,.1f}"\<close>: one decimal, the sign of \<open>x\<close> kept, \<open>nan\<close> for \<open>NaN\<close>.
\<close>

fun fmt_1f :: "bool \<Rightarrow> pyfloat \<Rightarrow> string" where
  "fmt_1f grouped NaN = ''nan''"
| "fmt_1f grouped (Fin x) =
     (let q = nat (round_half_even (\<bar>x\<bar> * 10));
          whole = str_nat (q div 10)
      in (if x < 0 then ''-'' else []) @ (if grouped then group3 whole else whole)
           @ ''.'' @ [digit_char (q mod 10)])"

text \<open>\<open>repr\<close> of a list of plain strings: \<open>['a', 'b']\<close>.\<close>

fun join :: "string \<Rightarrow> string list \<Rightarrow> string" where
  "join sep [] = []"
| "join sep [x] = x"
| "join sep (x # y # ys) = x @ sep @ join sep (y # ys)"

definition repr_list :: "string list \<Rightarrow> string" where
  "repr_list xs = ''['' @ join '', '' (map (\<lambda>x. [CHR 0x27] @ x @ [CHR 0x27]) xs) @ '']''"

subsection \<open>The libraries and the page\<close>

record upload =
  name :: string
  content :: string

text \<open>
  What the script calls and the repository does not contain. The two readers return the
  frame, or \<open>Inl\<close> the message of the exception they raise. \<open>to_datetime_cell\<close> is the
  date parser on one value, \<open>None\<close> where the value cannot be parsed. \<open>cell_le\<close> is
  Python's order on two values, which \<open>sorted\<close>, \<open>sort_values\<close> and \<open>groupby\<close> sort by, and
  \<open>to_period_Q\<close> is the quarter label of a timestamp.
\<close>

record library =
  read_csv :: "upload \<Rightarrow> string + dataframe"
  read_excel :: "upload \<Rightarrow> string + dataframe"
  to_datetime_cell :: "cell \<Rightarrow> int option"
  cell_le :: "cell \<Rightarrow> cell \<Rightarrow> bool"
  to_period_Q :: "int \<Rightarrow> string"

text \<open>
  \<open>pd.to_datetime(s, errors="coerce")\<close>: a missing value stays missing, and a value that
  cannot be parsed becomes the missing value instead of raising.
\<close>

definition to_datetime :: "library \<Rightarrow> series \<Rightarrow> series" where
  "to_datetime L s =
     map (\<lambda>c. if c = NA then NA
               else (case to_datetime_cell L c of Some d \<Rightarrow> Date d | None \<Rightarrow> NA)) s"

text \<open>
  What the script puts on the page, in order. Layout containers (\<open>st.columns\<close>) are not
  kept; the pictographs in front of some labels are left out, and the arrow in two texts
  is written \<open>->\<close>.
\<close>

datatype figure =
  Bar dataframe string
| Line dataframe string
| Scatter dataframe string
| Timeline dataframe string string

datatype widget =
  Title string
| Caption string
| Sidebar "widget list"
| Header string
| Write string
| Markdown string
| FileUploader string "string list"
| Info string
| Error string
| Expander string "widget list"
| Multiselect string "cell list"
| Metric string string
| Subheader string
| DataFrame dataframe
| PlotlyChart figure
| Radio string "string list"

text \<open>
  The state of one run: the uploaded file (what \<open>st.file_uploader\<close> returns), the values
  the five multiselects and the radio button return, and the page rendered so far.
\<close>

record world =
  uploaded :: "upload option"
  track_f :: "cell list"
  cat_f :: "cell list"
  mod_f :: "cell list"
  qtr_f :: "cell list"
  status_f :: "cell list"
  opt :: string
  page :: "widget list"

definition emit :: "widget list \<Rightarrow> world \<Rightarrow> world" where
  "emit ws w = w\<lparr>page := page w @ ws\<rparr>"

subsection \<open>Ordering, sorting and grouping\<close>

text \<open>
  A stable insertion sort by an order \<open>le\<close>; \<open>sorted(xs)\<close> and \<open>sort_values\<close> over several
  columns are stable.
\<close>

fun insort_by :: "('a \<Rightarrow> 'a \<Rightarrow> bool) \<Rightarrow> 'a \<Rightarrow> 'a list \<Rightarrow> 'a list" where
  "insort_by le x [] = [x]"
| "insort_by le x (y # ys) = (if le x y then x # y # ys else y # insort_by le x ys)"

definition py_sorted :: "('a \<Rightarrow> 'a \<Rightarrow> bool) \<Rightarrow> 'a list \<Rightarrow> 'a list" where
  "py_sorted le xs = foldr (insort_by le) xs []"

text \<open>Key tuples compare lexicographically; a missing value sorts after every value.\<close>

fun key_le :: "(cell \<Rightarrow> cell \<Rightarrow> bool) \<Rightarrow> cell list \<Rightarrow> cell list \<Rightarrow> bool" where
  "key_le le (a # as) (b # bs) =
     (if a = b then key_le le as bs
      else if a = NA then False else if b = NA then True else le a b)"
| "key_le le _ _ = True"

text \<open>The rows of a list of columns: \<open>rows_of [[a, b], [c, d]] = [[a, c], [b, d]]\<close>.\<close>

definition rows_of :: "series list \<Rightarrow> cell list list" where
  "rows_of ss = transpose ss"

text \<open>\<open>df.sort_values(ks)\<close>: every column, and the index, reordered by the key columns.\<close>

definition reorder :: "(cell \<Rightarrow> cell \<Rightarrow> bool) \<Rightarrow> cell list list \<Rightarrow> 'a list \<Rightarrow> 'a list" where
  "reorder le keys xs =
     map snd (py_sorted (\<lambda>a b. key_le le (fst a) (fst b)) (zip keys xs))"

definition sort_values :: "library \<Rightarrow> dataframe \<Rightarrow> string list \<Rightarrow> dataframe option" where
  "sort_values L df ks = do {
     keycols \<leftarrow> those (map (getitem df) ks);
     let keys = rows_of keycols;
     Some \<lparr>index = reorder (cell_le L) keys (index df),
           cols = map (\<lambda>(c, s). (c, reorder (cell_le L) keys s)) (cols df)\<rparr>
   }"

text \<open>\<open>df.reset_index(drop=True)\<close>\<close>

definition reset_index :: "dataframe \<Rightarrow> dataframe" where
  "reset_index df = df\<lparr>index := [0..<len df]\<rparr>"

text \<open>
  \<open>df.groupby(ks, as_index=False)\<close>: the distinct key tuples without a missing value,
  sorted, each with the cells of \<open>vs\<close> on its rows.
\<close>

definition groups :: "library \<Rightarrow> dataframe \<Rightarrow> string list \<Rightarrow> series
    \<Rightarrow> (cell list \<times> series) list option" where
  "groups L df ks vs = do {
     keycols \<leftarrow> those (map (getitem df) ks);
     let pairs = filter (\<lambda>(k, x). NA \<notin> set k) (zip (rows_of keycols) vs);
     let gkeys = py_sorted (key_le (cell_le L)) (unique (map fst pairs));
     Some (map (\<lambda>g. (g, map snd (filter (\<lambda>(k, x). k = g) pairs))) gkeys)
   }"

text \<open>The frame of an aggregation: the key columns, then the aggregated column.\<close>

definition groups_frame :: "string list \<Rightarrow> (cell list \<times> series) list \<Rightarrow> string
    \<Rightarrow> (series \<Rightarrow> cell) \<Rightarrow> dataframe" where
  "groups_frame ks gs v agg =
     \<lparr>index = [0..<length gs],
      cols = zip ks (if gs = [] then replicate (length ks) [] else transpose (map fst gs))
               @ [(v, map (\<lambda>(k, xs). agg xs) gs)]\<rparr>"

fun cell_of_float :: "pyfloat \<Rightarrow> cell" where
  "cell_of_float (Fin x) = Num x"
| "cell_of_float NaN = NA"

definition groupby_sum :: "library \<Rightarrow> dataframe \<Rightarrow> string list \<Rightarrow> string \<Rightarrow> dataframe option" where
  "groupby_sum L df ks v = do {
     vs \<leftarrow> getitem df v;
     gs \<leftarrow> groups L df ks vs;
     Some (groups_frame ks gs v (\<lambda>xs. Num (sum_s xs)))
   }"

definition groupby_mean :: "library \<Rightarrow> dataframe \<Rightarrow> string list \<Rightarrow> string \<Rightarrow> dataframe option" where
  "groupby_mean L df ks v = do {
     vs \<leftarrow> getitem df v;
     gs \<leftarrow> groups L df ks vs;
     Some (groups_frame ks gs v (\<lambda>xs. cell_of_float (mean_s xs)))
   }"

definition groupby_size :: "library \<Rightarrow> dataframe \<Rightarrow> string list \<Rightarrow> dataframe option" where
  "groupby_size L df ks = do {
     gs \<leftarrow> groups L df ks (replicate (len df) NA);
     Some (groups_frame ks gs ''size'' (\<lambda>xs. Num (of_nat (length xs))))
   }"

subsection \<open>Reading and validating (app.py, lines 6-49)\<close>

definition REQUIRED_COLUMNS :: "string list" where
  "REQUIRED_COLUMNS =
     [''Initiative'', ''Category'', ''Track'', ''Quarter'', ''PlannedStart'', ''PlannedEnd'',
      ''ActualStart'', ''ActualEnd'', ''Status'', ''Revenue'', ''Effort'', ''BreakEvenMonths'',
      ''Module'']"

definition help_text :: string where
  "help_text = concat (map (\<lambda>l. l @ [CHR 0x0A])
     [[],
      ''    1. Prepare your Excel/CSV with these columns:'',
      ''    - Initiative, Category (Enhancement/New Feature/Algorithm/Feature), Track (AI/Automation or DDE), Module'',
      ''    - Quarter (e.g., 2025-Q3)'',
      ''    - PlannedStart, PlannedEnd, ActualStart, ActualEnd (YYYY-MM-DD)'',
      ''    - Status (Planned/In Progress/Completed/Delayed/Blocked)'',
      ''    - Revenue (numeric), Effort (hours or person-days), BreakEvenMonths (numeric)'',
      ''    2. Upload file -> dashboard updates automatically.'']) @ ''    ''"

text \<open>Lines 6-29: title, caption, the sidebar and the upload widget.\<close>

definition preamble :: "widget list" where
  "preamble =
     [Title ''Product Roadmap Dashboard (Internal)'',
      Caption ''Upload Excel/CSV -> auto KPIs + charts'',
      Sidebar [Header ''How to use'', Write help_text,
               Markdown ''**Template columns** are listed above.''],
      FileUploader ''Upload roadmap file (CSV or XLSX)'' [''csv'', ''xlsx'']]"

text \<open>Lines 36-43: the reader is chosen by the file name; any exception is caught.\<close>

definition read_input :: "library \<Rightarrow> upload \<Rightarrow> string + dataframe" where
  "read_input L up =
     (if suffix ''.csv'' (lower (name up)) then read_csv L up else read_excel L up)"

text \<open>Line 46: \<^verbatim>\<open>missing = [c for c in REQUIRED_COLUMNS if c not in df.columns]\<close>\<close>

definition missing :: "dataframe \<Rightarrow> string list" where
  "missing df = filter (\<lambda>c. c \<notin> set (columns df)) REQUIRED_COLUMNS"

subsection \<open>Parsing the dates (app.py, lines 52-53)\<close>

fun parse_dates_loop :: "library \<Rightarrow> string list \<Rightarrow> dataframe \<Rightarrow> dataframe option" where
  "parse_dates_loop L [] df = Some df"
| "parse_dates_loop L (c # cs) df = do {
     s \<leftarrow> getitem df c;
     parse_dates_loop L cs (setitem df c (to_datetime L s))
   }"

definition parse_dates :: "library \<Rightarrow> dataframe \<Rightarrow> dataframe option" where
  "parse_dates L df =
     parse_dates_loop L [''PlannedStart'', ''PlannedEnd'', ''ActualStart'', ''ActualEnd''] df"

subsection \<open>Derived columns (app.py, lines 55-57)\<close>

text \<open>
  \<^verbatim>\<open>df["Completed"] = df["Status"].str.lower().eq("completed")\<close>
  \<^verbatim>\<open>df["OnTime"] = df["Completed"] & (df["ActualEnd"] <= df["PlannedEnd"])\<close>
\<close>

definition derive_helpers :: "dataframe \<Rightarrow> dataframe option" where
  "derive_helpers df = do {
     status \<leftarrow> getitem df ''Status'';
     let df1 = setitem df ''Completed'' (eq_s (str_lower status) (Text ''completed''));
     completed \<leftarrow> getitem df1 ''Completed'';
     actual_end \<leftarrow> getitem df1 ''ActualEnd'';
     planned_end \<leftarrow> getitem df1 ''PlannedEnd'';
     Some (setitem df1 ''OnTime'' (and_s completed (le_s actual_end planned_end)))
   }"

text \<open>
  The specification's words for the comparison: two strings are equal case-insensitively
  when they have the same letters up to case.
\<close>

definition caseless_eq :: "string \<Rightarrow> string \<Rightarrow> bool" where
  "caseless_eq a b = list_all2 (\<lambda>x y. lower_char x = lower_char y) a b"

subsection \<open>Filters (app.py, lines 60-74)\<close>

text \<open>The options a multiselect offers: \<^verbatim>\<open>sorted(df[c].dropna().unique().tolist())\<close>\<close>

definition options :: "library \<Rightarrow> dataframe \<Rightarrow> string \<Rightarrow> cell list option" where
  "options L df c = do { s \<leftarrow> getitem df c; Some (py_sorted (cell_le L) (unique (dropna_s s))) }"

definition filters_expander :: "library \<Rightarrow> dataframe \<Rightarrow> widget option" where
  "filters_expander L df = do {
     track \<leftarrow> options L df ''Track'';
     cat \<leftarrow> options L df ''Category'';
     modl \<leftarrow> options L df ''Module'';
     qtr \<leftarrow> options L df ''Quarter'';
     status \<leftarrow> options L df ''Status'';
     Some (Expander ''Filters''
       [Multiselect ''Track'' track, Multiselect ''Category'' cat, Multiselect ''Module'' modl,
        Multiselect ''Quarter'' qtr, Multiselect ''Status'' status])
   }"

text \<open>One line \<^verbatim>\<open>if sel: mask &= df[c].isin(sel)\<close>: an empty selection leaves the mask alone.\<close>

definition and_isin :: "dataframe \<Rightarrow> string \<Rightarrow> cell list \<Rightarrow> series \<Rightarrow> series option" where
  "and_isin df c sel msk =
     (if sel \<noteq> [] then do { s \<leftarrow> getitem df c; Some (and_s msk (isin s sel)) }
      else Some msk)"

definition filter_mask :: "world \<Rightarrow> dataframe \<Rightarrow> series option" where
  "filter_mask w df = do {
     let msk = replicate (len df) (Flag True);
     msk \<leftarrow> and_isin df ''Track'' (track_f w) msk;
     msk \<leftarrow> and_isin df ''Category'' (cat_f w) msk;
     msk \<leftarrow> and_isin df ''Module'' (mod_f w) msk;
     msk \<leftarrow> and_isin df ''Quarter'' (qtr_f w) msk;
     msk \<leftarrow> and_isin df ''Status'' (status_f w) msk;
     Some msk
   }"

definition filtered :: "world \<Rightarrow> dataframe \<Rightarrow> dataframe option" where
  "filtered w df = do { msk \<leftarrow> filter_mask w df; Some (loc_mask df msk) }"

subsection \<open>KPIs (app.py, lines 77-95)\<close>

record kpis =
  total :: nat
  completed :: int
  planned_vs_completed :: string
  total_rev :: rat
  total_effort :: rat
  avg_breakeven :: pyfloat
  ontime :: "pyfloat option"

definition compute_kpis :: "dataframe \<Rightarrow> kpis option" where
  "compute_kpis fdf = do {
     let total = len fdf;
     completed_col \<leftarrow> getitem fdf ''Completed'';
     let completed = py_int (sum_s completed_col);
     let planned_vs_completed =
       (if total \<noteq> 0 then str_int completed @ ''/'' @ str_nat total else ''0/0'');
     total_rev \<leftarrow> (if total \<noteq> 0
        then do { s \<leftarrow> getitem fdf ''Revenue''; Some (sum_s s) } else Some 0);
     total_effort \<leftarrow> (if total \<noteq> 0
        then do { s \<leftarrow> getitem fdf ''Effort''; Some (sum_s s) } else Some 0);
     avg_breakeven \<leftarrow> (if total \<noteq> 0
        then do { s \<leftarrow> getitem fdf ''BreakEvenMonths''; Some (mean_s s) } else Some (Fin 0));
     ontime_col \<leftarrow> getitem fdf ''OnTime'';
     let ontime = (if any_s (notna ontime_col)
        then Some (round1 (times100 (mean_s ontime_col))) else None);
     Some \<lparr>total = total, completed = completed, planned_vs_completed = planned_vs_completed,
           total_rev = total_rev, total_effort = total_effort, avg_breakeven = avg_breakeven,
           ontime = ontime\<rparr>
   }"

definition metrics :: "kpis \<Rightarrow> widget list" where
  "metrics k =
     [Metric ''Initiatives Completed / Total'' (planned_vs_completed k),
      Metric ''Total Revenue Opportunity'' (''$'' @ fmt_1f True (Fin (total_rev k)) @ ''M''),
      Metric ''On-Time Delivery %''
        (case ontime k of Some x \<Rightarrow> fmt_1f False x @ ''%'' | None \<Rightarrow> ''N/A''),
      Metric ''Total Effort'' (fmt_int_grouped (py_int (total_effort k))),
      Metric ''Avg Break-Even (mo)''
        (if total k \<noteq> 0 then fmt_1f False (avg_breakeven k) else ''N/A'')]"

subsection \<open>Table, charts and timeline (app.py, lines 97-178)\<close>

definition table_widgets :: "library \<Rightarrow> dataframe \<Rightarrow> widget list option" where
  "table_widgets L fdf = do {
     t \<leftarrow> sort_values L fdf [''Quarter'', ''Status'', ''Initiative''];
     Some [Subheader ''Initiatives'', DataFrame (reset_index t)]
   }"

text \<open>Revenue by quarter, stacked by track.\<close>

definition chart_revenue :: "library \<Rightarrow> dataframe \<Rightarrow> widget list option" where
  "chart_revenue L fdf = do {
     rev \<leftarrow> groupby_sum L fdf [''Quarter'', ''Track''] ''Revenue'';
     Some (if \<not> empty_df rev
       then [PlotlyChart (Bar rev ''Revenue Opportunity by Quarter (stacked)'')]
       else [Info ''Revenue chart: no data after filters.''])
   }"

text \<open>The on-time trend, by the quarter of the planned end.\<close>

fun quarter_key :: "library \<Rightarrow> cell \<Rightarrow> cell" where
  "quarter_key L (Date d) = Text (to_period_Q L d)"
| "quarter_key L _ = Text ''NaT''"

fun percent_cell :: "cell \<Rightarrow> cell" where
  "percent_cell c = (case num_of c of Some x \<Rightarrow> cell_of_float (round1 (Fin (x * 100))) | None \<Rightarrow> NA)"

definition chart_trend :: "library \<Rightarrow> dataframe \<Rightarrow> widget list option" where
  "chart_trend L fdf = do {
     tmp \<leftarrow> dropna fdf [''PlannedEnd''];
     if \<not> empty_df tmp then do {
       planned_end \<leftarrow> getitem tmp ''PlannedEnd'';
       let tmp = setitem tmp ''QKey'' (map (quarter_key L) planned_end);
       trend \<leftarrow> groupby_mean L tmp [''QKey''] ''OnTime'';
       on_time \<leftarrow> getitem trend ''OnTime'';
       let trend = setitem trend ''OnTimePct'' (map percent_cell on_time);
       Some [PlotlyChart (Line trend ''On-Time Delivery Trend (%)'')]
     } else Some [Info ''On-time trend: need PlannedEnd dates.'']
   }"

text \<open>Completed initiatives by category.\<close>

definition chart_completed :: "library \<Rightarrow> dataframe \<Rightarrow> widget list option" where
  "chart_completed L fdf = do {
     completed \<leftarrow> getitem fdf ''Completed'';
     comp \<leftarrow> groupby_size L (loc_mask fdf completed) [''Category''];
     Some (if \<not> empty_df comp
       then [PlotlyChart (Bar comp ''Initiatives Completed by Category'')]
       else [Info ''Completed-by-Category chart: no completed items after filters.''])
   }"

text \<open>Effort against revenue.\<close>

definition chart_bubble :: "dataframe \<Rightarrow> widget list option" where
  "chart_bubble fdf = do {
     bub \<leftarrow> dropna fdf [''Effort'', ''Revenue''];
     Some (if \<not> empty_df bub
       then [PlotlyChart (Scatter bub ''Effort vs Revenue (bubble = BreakEven months)'')]
       else [Info ''Effort vs Revenue: need Effort & Revenue values.''])
   }"

text \<open>The timeline, planned or actual as the radio button says.\<close>

definition timeline :: "world \<Rightarrow> dataframe \<Rightarrow> widget list option" where
  "timeline w fdf = do {
     chart \<leftarrow> (if opt w = ''Planned'' then do {
         tl \<leftarrow> dropna fdf [''PlannedStart'', ''PlannedEnd''];
         Some (if \<not> empty_df tl
           then [PlotlyChart (Timeline tl ''PlannedStart'' ''PlannedEnd'')]
           else [Info ''No Planned dates available for timeline.''])
       } else do {
         tl \<leftarrow> dropna fdf [''ActualStart'', ''ActualEnd''];
         Some (if \<not> empty_df tl
           then [PlotlyChart (Timeline tl ''ActualStart'' ''ActualEnd'')]
           else [Info ''No Actual dates available for timeline.''])
       });
     Some ([Subheader ''Timeline (Gantt)'',
            Radio ''Show timeline for:'' [''Planned'', ''Actual'']] @ chart)
   }"

definition tip :: widget where
  "tip = Caption ''Tip: Use the Filters section to slice by Track (AI/Automation vs DDE), Category, Module, Quarter or Status.''"

subsection \<open>The script\<close>

text \<open>
  Lines 51-178, run on a frame that has passed the column check. \<open>None\<close> is an uncaught
  KeyError.
\<close>

definition dashboard :: "library \<Rightarrow> world \<Rightarrow> dataframe \<Rightarrow> world option" where
  "dashboard L w df = do {
     df \<leftarrow> parse_dates L df;
     df \<leftarrow> derive_helpers df;
     expander \<leftarrow> filters_expander L df;
     fdf \<leftarrow> filtered w df;
     k \<leftarrow> compute_kpis fdf;
     tbl \<leftarrow> table_widgets L fdf;
     c1 \<leftarrow> chart_revenue L fdf;
     c2 \<leftarrow> chart_trend L fdf;
     c3 \<leftarrow> chart_completed L fdf;
     c4 \<leftarrow> chart_bubble fdf;
     tl \<leftarrow> timeline w fdf;
     Some (emit ([expander] @ metrics k @ tbl @ c1 @ c2 @ c3 @ c4 @ tl @ [tip]) w)
   }"

text \<open>
  The whole script. \<open>st.stop()\<close> ends the run with the page as it is: after the hint when
  no file is uploaded, and after the error message when the file cannot be read or a
  required column is missing.
\<close>

definition app :: "library \<Rightarrow> world \<Rightarrow> world option" where
  "app L w0 =
     (let w = emit preamble w0 in
      case uploaded w of
        None \<Rightarrow> Some (emit
          [Info ''Upload a CSV/XLSX to continue. You can start from the sample included in the repo.''] w)
      | Some up \<Rightarrow>
          (case read_input L up of
             Inl e \<Rightarrow> Some (emit [Error (''Could not read file: '' @ e)] w)
           | Inr df \<Rightarrow>
               if missing df \<noteq> []
               then Some (emit
                 [Error (''Your file is missing required columns: '' @ repr_list (missing df))] w)
               else dashboard L w df))"

subsection \<open>An example roadmap\<close>

text \<open>
  Four initiatives. The third has no actual end date and an actual start that is not a
  date; the fourth has a planned end that is not a date and no revenue.
\<close>

definition ex_df :: dataframe where
  "ex_df = \<lparr>index = [0, 1, 2, 3], cols =
     [(''Initiative'', [Text ''Search'', Text ''Billing'', Text ''Ranker'', Text ''Export'']),
      (''Category'', [Text ''Enhancement'', Text ''New Feature'', Text ''Algorithm'', Text ''Feature'']),
      (''Track'', [Text ''AI'', Text ''DDE'', Text ''AI'', Text ''AI'']),
      (''Quarter'', [Text ''2025-Q1'', Text ''2025-Q1'', Text ''2025-Q2'', Text ''2025-Q2'']),
      (''PlannedStart'', [Date 0, Date 10, Date 91, Date 100]),
      (''PlannedEnd'', [Date 90, Date 90, Date 181, Text ''tbd'']),
      (''ActualStart'', [Date 5, Date 20, Text ''soon'', NA]),
      (''ActualEnd'', [Date 80, Date 120, NA, Date 150]),
      (''Status'', [Text ''Completed'', Text ''COMPLETED'', Text ''completed'', Text ''In Progress'']),
      (''Revenue'', [Num 12, Num 8, Num (5 / 2), NA]),
      (''Effort'', [Num 300, Num 1200, Num 450, Num 80]),
      (''BreakEvenMonths'', [Num 6, Num 12, NA, Num 9]),
      (''Module'', [Text ''Core'', Text ''Pay'', Text ''Core'', Text ''IO''])]\<rparr>"

text \<open>The same table without its Revenue and Module columns.\<close>

definition ex_df_short :: dataframe where
  "ex_df_short = ex_df\<lparr>cols := filter (\<lambda>(c, s). c \<noteq> ''Revenue'' \<and> c \<noteq> ''Module'') (cols ex_df)\<rparr>"

fun ex_parse :: "cell \<Rightarrow> int option" where
  "ex_parse (Date d) = Some d"
| "ex_parse _ = None"

fun ex_lex_le :: "string \<Rightarrow> string \<Rightarrow> bool" where
  "ex_lex_le [] _ = True"
| "ex_lex_le (a # as) [] = False"
| "ex_lex_le (a # as) (b # bs) =
     (if a = b then ex_lex_le as bs else (of_char a :: nat) < of_char b)"

fun ex_cell_le :: "cell \<Rightarrow> cell \<Rightarrow> bool" where
  "ex_cell_le (Text a) (Text b) = ex_lex_le a b"
| "ex_cell_le (Num a) (Num b) = (a \<le> b)"
| "ex_cell_le (Date a) (Date b) = (a \<le> b)"
| "ex_cell_le (Flag a) (Flag b) = (a \<longrightarrow> b)"
| "ex_cell_le _ _ = True"

definition ex_lib :: library where
  "ex_lib = \<lparr>
     read_csv = (\<lambda>up. if content up = ''roadmap'' then Inr ex_df
                      else if content up = ''short'' then Inr ex_df_short
                      else Inl ''No columns to parse from file''),
     read_excel = (\<lambda>up. Inl ''File is not a zip file''),
     to_datetime_cell = ex_parse,
     cell_le = ex_cell_le,
     to_period_Q = (\<lambda>d. if d \<le> 90 then ''2025Q1'' else ''2025Q2'')\<rparr>"

definition ex_world :: world where
  "ex_world = \<lparr>uploaded = Some \<lparr>name = ''Roadmap.CSV'', content = ''roadmap''\<rparr>,
     track_f = [Text ''AI''], cat_f = [], mod_f = [], qtr_f = [], status_f = [],
     opt = ''Planned'', page = []\<rparr>"


text \<open>Four more runs: no upload, a workbook that is not one, a CSV file without columns,
  and the table that lacks two columns.\<close>

definition ex_world_none :: world where
  "ex_world_none = ex_world\<lparr>uploaded := None\<rparr>"

definition ex_world_xlsx :: world where
  "ex_world_xlsx = ex_world\<lparr>uploaded := Some \<lparr>name = ''plan.xlsx'', content = ''roadmap''\<rparr>\<rparr>"

definition ex_world_bad_csv :: world where
  "ex_world_bad_csv = ex_world\<lparr>uploaded := Some \<lparr>name = ''plan.CSV'', content = []\<rparr>\<rparr>"

definition ex_world_short :: world where
  "ex_world_short = ex_world\<lparr>uploaded := Some \<lparr>name = ''plan.csv'', content = ''short''\<rparr>\<rparr>"

text \<open>The example table after the dates are parsed: the two texts have become missing values.\<close>

definition ex_parsed :: dataframe where
  "ex_parsed = setitem (setitem ex_df ''PlannedEnd'' [Date 90, Date 90, Date 181, NA])
     ''ActualStart'' [Date 5, Date 20, NA, NA]"

subsection \<open>The filter, in the words of the specification\<close>

text \<open>
  Row \<open>i\<close> passes when, for each of the five fields whose selection is not empty, the row's
  value of the field is in the selection.
\<close>

definition passes :: "world \<Rightarrow> dataframe \<Rightarrow> nat \<Rightarrow> bool" where
  "passes w df i =
     list_all (\<lambda>(c, sel). sel = [] \<or> (case getitem df c of Some s \<Rightarrow> s ! i \<in> set sel | None \<Rightarrow> False))
       [(''Track'', track_f w), (''Category'', cat_f w), (''Module'', mod_f w),
        (''Quarter'', qtr_f w), (''Status'', status_f w)]"

text \<open>The frame made of the rows at the given positions, in that order.\<close>

definition rows_at :: "dataframe \<Rightarrow> nat list \<Rightarrow> dataframe" where
  "rows_at df ps =
     \<lparr>index = map (nth (index df)) ps, cols = map (\<lambda>(c, s). (c, map (nth s) ps)) (cols df)\<rparr>"

text \<open>A run of the example with a Track selection that no row has, and one with no selection.\<close>

definition ex_world_nothing :: world where
  "ex_world_nothing = ex_world\<lparr>track_f := [Text ''Robotics'']\<rparr>"

definition ex_world_all :: world where
  "ex_world_all = ex_world\<lparr>track_f := []\<rparr>"

section \<open>Properties\<close>

subsection \<open>The Completed flag\<close>

lemma getitem_setitem:
  "getitem (setitem df c s) c' = (if c' = c then Some s else getitem df c')"
  by (simp add: getitem_def setitem_def update_conv')

lemma lower_completed: "lower ''completed'' = ''completed''"
  by code_simp

lemma caseless_eq_lower: "caseless_eq a b \<longleftrightarrow> lower a = lower b"
  unfolding caseless_eq_def lower_def
proof (induction a arbitrary: b)
  case Nil
  then show ?case by auto
next
  case (Cons x xs)
  then show ?case by (cases b) auto
qed

lemma eq_completed_cell:
  "(str_lower_cell c \<noteq> NA \<and> str_lower_cell c = Text ''completed'')
     \<longleftrightarrow> (\<exists>s. c = Text s \<and> caseless_eq s ''completed'')"
  by (cases c) (simp_all add: caseless_eq_lower lower_completed)

lemma derive_helpers_Some:
  assumes "derive_helpers df = Some df'"
  obtains status actual_end planned_end where
    "getitem df ''Status'' = Some status"
    "getitem df ''ActualEnd'' = Some actual_end"
    "getitem df ''PlannedEnd'' = Some planned_end"
    "df' = setitem (setitem df ''Completed'' (eq_s (str_lower status) (Text ''completed'')))
             ''OnTime''
             (and_s (eq_s (str_lower status) (Text ''completed''))
                (le_s actual_end planned_end))"
  using assms
  by (auto simp: derive_helpers_def getitem_setitem Let_def split: bind_splits)

text \<open>
  C1. For every row, the derived column Completed holds true exactly when the row's Status
  is text that equals "completed" case-insensitively (and false otherwise, also when the
  Status is missing).
\<close>

theorem completed_iff_status_completed:
  assumes "derive_helpers df = Some df'"
    and "getitem df ''Status'' = Some status"
    and "i < length status"
  shows "\<exists>completed. getitem df' ''Completed'' = Some completed
           \<and> length completed = length status
           \<and> completed ! i = Flag (\<exists>s. status ! i = Text s \<and> caseless_eq s ''completed'')"
proof -
  from assms(1) obtain st ae pe where
    st: "getitem df ''Status'' = Some st"
    and df': "df' = setitem (setitem df ''Completed'' (eq_s (str_lower st) (Text ''completed'')))
             ''OnTime'' (and_s (eq_s (str_lower st) (Text ''completed'')) (le_s ae pe))"
    by (rule derive_helpers_Some)
  from st assms(2) have [simp]: "st = status" by simp
  have "getitem df' ''Completed'' = Some (eq_s (str_lower status) (Text ''completed''))"
    by (simp add: df' getitem_setitem)
  moreover have "length (eq_s (str_lower status) (Text ''completed'')) = length status"
    by (simp add: eq_s_def str_lower_def)
  moreover have "eq_s (str_lower status) (Text ''completed'') ! i
      = Flag (\<exists>s. status ! i = Text s \<and> caseless_eq s ''completed'')"
    using assms(3) by (simp add: eq_s_def str_lower_def eq_completed_cell)
  ultimately show ?thesis by simp
qed

theorem completed_iff_status_completed_witness:
  "\<exists>df'. derive_helpers ex_df = Some df'
     \<and> getitem ex_df ''Status''
         = Some [Text ''Completed'', Text ''COMPLETED'', Text ''completed'', Text ''In Progress'']
     \<and> (\<exists>completed. getitem df' ''Completed'' = Some completed \<and> length completed = 4
           \<and> completed ! 1 = Flag True)
     \<and> (\<exists>completed. getitem df' ''Completed'' = Some completed \<and> completed ! 3 = Flag False)"
proof -
  let ?status = "[Text ''Completed'', Text ''COMPLETED'', Text ''completed'', Text ''In Progress'']"
  have "derive_helpers ex_df \<noteq> None" by code_simp
  then obtain df' where d: "derive_helpers ex_df = Some df'" by blast
  have s: "getitem ex_df ''Status'' = Some ?status" by code_simp
  have c1: "caseless_eq ''COMPLETED'' ''completed''" by code_simp
  have c3: "\<not> caseless_eq ''In Progress'' ''completed''" by code_simp
  from completed_iff_status_completed [OF d s, of 1] c1
  have "\<exists>completed. getitem df' ''Completed'' = Some completed \<and> length completed = 4
           \<and> completed ! 1 = Flag True"
    by (simp add: eval_nat_numeral)
  moreover from completed_iff_status_completed [OF d s, of 3] c3
  have "\<exists>completed. getitem df' ''Completed'' = Some completed \<and> completed ! 3 = Flag False"
    by auto
  ultimately show ?thesis using d s by blast
qed

subsection \<open>Columns of a frame\<close>

lemma getitem_Some_iff: "(\<exists>s. getitem df c = Some s) \<longleftrightarrow> c \<in> set (columns df)"
  using map_of_eq_None_iff [of "cols df" c] by (auto simp: getitem_def columns_def)

lemma getitem_present: "c \<in> set (columns df) \<Longrightarrow> \<exists>s. getitem df c = Some s"
  by (simp add: getitem_Some_iff)






lemma required_names:
  "set REQUIRED_COLUMNS = {''Initiative'', ''Category'', ''Track'', ''Quarter'', ''PlannedStart'',
     ''PlannedEnd'', ''ActualStart'', ''ActualEnd'', ''Status'', ''Revenue'', ''Effort'',
     ''BreakEvenMonths'', ''Module''}"
  by (simp add: REQUIRED_COLUMNS_def)

subsection \<open>Date parsing\<close>





subsection \<open>Every stage succeeds on a frame that has the columns it reads\<close>





















subsection \<open>The script on a frame that has every required column\<close>










subsection \<open>Rejected uploads\<close>

text \<open>
  C3. When the uploaded table lacks any one of the thirteen required columns, the run
  reports the missing columns and stops: the page holds the preamble and that one error
  message, and nothing of the dashboard (no filters, metrics, table, chart or timeline).
\<close>

theorem missing_column_rejected:
  assumes "uploaded w = Some up"
    and "read_input L up = Inr df"
    and "c \<in> {''Initiative'', ''Category'', ''Track'', ''Quarter'', ''PlannedStart'',
           ''PlannedEnd'', ''ActualStart'', ''ActualEnd'', ''Status'', ''Revenue'', ''Effort'',
           ''BreakEvenMonths'', ''Module''}"
    and "c \<notin> set (columns df)"
  shows "c \<in> set (missing df)
     \<and> app L w = Some (w\<lparr>page := page w @ preamble
          @ [Error (''Your file is missing required columns: '' @ repr_list (missing df))]\<rparr>)"
proof -
  from assms(3) have "c \<in> set REQUIRED_COLUMNS" by (simp only: required_names)
  with assms(4) have m: "c \<in> set (missing df)" by (simp add: missing_def)
  then have "missing df \<noteq> []" by auto
  with assms(1,2) m show ?thesis by (simp add: app_def emit_def)
qed

theorem missing_column_rejected_witness:
  "uploaded ex_world_short = Some \<lparr>name = ''plan.csv'', content = ''short''\<rparr>
   \<and> read_input ex_lib \<lparr>name = ''plan.csv'', content = ''short''\<rparr> = Inr ex_df_short
   \<and> ''Module'' \<notin> set (columns ex_df_short)
   \<and> ''Module'' \<in> set (missing ex_df_short)
   \<and> app ex_lib ex_world_short = Some (ex_world_short\<lparr>page := preamble
        @ [Error (''Your file is missing required columns: ['' @ [CHR 0x27] @ ''Revenue''
             @ [CHR 0x27] @ '', '' @ [CHR 0x27] @ ''Module'' @ [CHR 0x27] @ '']'')]\<rparr>)"
proof -
  let ?up = "\<lparr>name = ''plan.csv'', content = ''short''\<rparr>"
  have u: "uploaded ex_world_short = Some ?up" by code_simp
  have r: "read_input ex_lib ?up = Inr ex_df_short" by code_simp
  have n: "''Module'' \<notin> set (columns ex_df_short)" by code_simp
  have p: "page ex_world_short = []" by code_simp
  have e: "''Your file is missing required columns: '' @ repr_list (missing ex_df_short)
      = ''Your file is missing required columns: ['' @ [CHR 0x27] @ ''Revenue''
             @ [CHR 0x27] @ '', '' @ [CHR 0x27] @ ''Module'' @ [CHR 0x27] @ '']''"
    by code_simp
  from missing_column_rejected [OF u r _ n] u r n p e show ?thesis by simp
qed

text \<open>
  C6. When the reader chosen by the file name (the CSV reader for a name that ends in
  \<open>.csv\<close> in any case, the Excel reader otherwise) raises, the run reports the exception's
  message after \<open>Could not read file:\<close> and stops: the page holds the preamble and that one
  error message.
\<close>

theorem unreadable_file_reported:
  assumes "uploaded w = Some up"
    and "(suffix ''.csv'' (lower (name up)) \<and> read_csv L up = Inl e)
       \<or> (\<not> suffix ''.csv'' (lower (name up)) \<and> read_excel L up = Inl e)"
  shows "app L w = Some (w\<lparr>page := page w @ preamble @ [Error (''Could not read file: '' @ e)]\<rparr>)"
proof -
  from assms(2) have "read_input L up = Inl e" by (auto simp: read_input_def)
  with assms(1) show ?thesis by (simp add: app_def emit_def)
qed

theorem unreadable_file_reported_witness:
  "app ex_lib ex_world_bad_csv = Some (ex_world_bad_csv\<lparr>page := preamble
       @ [Error ''Could not read file: No columns to parse from file'']\<rparr>)
   \<and> app ex_lib ex_world_xlsx = Some (ex_world_xlsx\<lparr>page := preamble
       @ [Error ''Could not read file: File is not a zip file'']\<rparr>)"
proof -
  let ?c = "\<lparr>name = ''plan.CSV'', content = []\<rparr>"
  let ?x = "\<lparr>name = ''plan.xlsx'', content = ''roadmap''\<rparr>"
  have uc: "uploaded ex_world_bad_csv = Some ?c" by code_simp
  have ux: "uploaded ex_world_xlsx = Some ?x" by code_simp
  have c: "suffix ''.csv'' (lower (name ?c)) \<and> read_csv ex_lib ?c = Inl ''No columns to parse from file''"
    by code_simp
  have x: "\<not> suffix ''.csv'' (lower (name ?x)) \<and> read_excel ex_lib ?x = Inl ''File is not a zip file''"
    by code_simp
  have p: "page ex_world_bad_csv = []" "page ex_world_xlsx = []" by code_simp+
  from unreadable_file_reported [OF uc disjI1 [OF c]] unreadable_file_reported [OF ux disjI2 [OF x]] p
  show ?thesis by simp
qed

subsection \<open>The order of the pipeline\<close>



subsection \<open>No write-back\<close>



subsection \<open>Unparseable dates\<close>



subsection \<open>Well-formed frames\<close>

lemma wf_getitem_length:
  "wf_frame df \<Longrightarrow> getitem df c = Some s \<Longrightarrow> length s = len df"
  by (auto simp: wf_frame_def getitem_def list_all_iff dest: map_of_SomeD)








lemma length_eq_s: "length (eq_s s v) = length s"
  by (simp add: eq_s_def)

lemma length_str_lower: "length (str_lower s) = length s"
  by (simp add: str_lower_def)

lemma length_and_s: "length (and_s a b) = min (length a) (length b)"
  by (simp add: and_s_def)

lemma length_le_s: "length (le_s a b) = min (length a) (length b)"
  by (simp add: le_s_def)


subsection \<open>The derived columns, row by row\<close>

lemma on_time_cell:
  "and_cell (Flag b) (le_cell x y) = Flag (b \<and> (\<exists>a p. x = Date a \<and> y = Date p \<and> a \<le> p))"
  by (cases x; cases y) simp_all

lemma eq_s_nth: "i < length s \<Longrightarrow> eq_s s v ! i = Flag (s ! i \<noteq> NA \<and> s ! i = v)"
  by (simp add: eq_s_def)

text \<open>The two derived columns, as functions of the three columns they are computed from.\<close>

lemma derived_columns:
  assumes "derive_helpers df = Some df'" and "wf_frame df"
    and "getitem df ''Status'' = Some st" and "getitem df ''ActualEnd'' = Some ae"
    and "getitem df ''PlannedEnd'' = Some pe"
  shows "\<exists>completed on_time. getitem df' ''Completed'' = Some completed
     \<and> getitem df' ''OnTime'' = Some on_time
     \<and> length completed = len df \<and> length on_time = len df
     \<and> (\<forall>i < len df. \<exists>b. completed ! i = Flag b
           \<and> on_time ! i = Flag (b \<and> (\<exists>a p. ae ! i = Date a \<and> pe ! i = Date p \<and> a \<le> p)))"
proof -
  let ?c = "eq_s (str_lower st) (Text ''completed'')"
  let ?o = "and_s ?c (le_s ae pe)"
  from assms(1) obtain st' ae' pe' where
    "getitem df ''Status'' = Some st'" "getitem df ''ActualEnd'' = Some ae'"
    "getitem df ''PlannedEnd'' = Some pe'"
    "df' = setitem (setitem df ''Completed'' (eq_s (str_lower st') (Text ''completed'')))
             ''OnTime'' (and_s (eq_s (str_lower st') (Text ''completed'')) (le_s ae' pe'))"
    by (rule derive_helpers_Some)
  with assms(3-5) have df': "df' = setitem (setitem df ''Completed'' ?c) ''OnTime'' ?o"
    by simp
  from assms(2-5) have l: "length st = len df" "length ae = len df" "length pe = len df"
    by (simp_all add: wf_getitem_length)
  have c: "getitem df' ''Completed'' = Some ?c" and o: "getitem df' ''OnTime'' = Some ?o"
    by (simp_all add: df' getitem_setitem)
  have lc: "length ?c = len df" and lo: "length ?o = len df"
    using l by (simp_all add: length_and_s length_le_s length_eq_s length_str_lower)
  have "\<exists>b. ?c ! i = Flag b
           \<and> ?o ! i = Flag (b \<and> (\<exists>a p. ae ! i = Date a \<and> pe ! i = Date p \<and> a \<le> p))"
    if "i < len df" for i
  proof -
    from that l have ci: "?c ! i = Flag (str_lower st ! i \<noteq> NA \<and> str_lower st ! i = Text ''completed'')"
      by (simp add: eq_s_nth length_str_lower)
    from that l lc have "?o ! i = and_cell (?c ! i) (le_cell (ae ! i) (pe ! i))"
      by (simp add: and_s_def le_s_def)
    with ci show ?thesis by (simp add: on_time_cell)
  qed
  with c o lc lo show ?thesis by blast
qed

text \<open>
  C2. For every row, the derived column OnTime holds true exactly when the row's Completed
  flag is true and both its ActualEnd and its PlannedEnd are dates with ActualEnd no later
  than PlannedEnd.
\<close>

theorem on_time_iff_completed_and_not_late:
  assumes "derive_helpers df = Some df'" and "wf_frame df" and "i < len df"
    and "getitem df ''ActualEnd'' = Some actual_end"
    and "getitem df ''PlannedEnd'' = Some planned_end"
  shows "\<exists>completed on_time. getitem df' ''Completed'' = Some completed
     \<and> getitem df' ''OnTime'' = Some on_time \<and> length on_time = len df
     \<and> on_time ! i = Flag (completed ! i = Flag True
          \<and> (\<exists>a p. actual_end ! i = Date a \<and> planned_end ! i = Date p \<and> a \<le> p))"
proof -
  from assms(1) obtain st where st: "getitem df ''Status'' = Some st"
    by (rule derive_helpers_Some)
  from derived_columns [OF assms(1,2) st assms(4,5)] obtain completed on_time where
    c: "getitem df' ''Completed'' = Some completed" "getitem df' ''OnTime'' = Some on_time"
      "length on_time = len df"
    and r: "\<forall>i < len df. \<exists>b. completed ! i = Flag b
           \<and> on_time ! i = Flag (b \<and> (\<exists>a p. actual_end ! i = Date a \<and> planned_end ! i = Date p \<and> a \<le> p))"
    by blast
  from r assms(3) obtain b where "completed ! i = Flag b"
    "on_time ! i = Flag (b \<and> (\<exists>a p. actual_end ! i = Date a \<and> planned_end ! i = Date p \<and> a \<le> p))"
    by blast
  then have "on_time ! i = Flag (completed ! i = Flag True
          \<and> (\<exists>a p. actual_end ! i = Date a \<and> planned_end ! i = Date p \<and> a \<le> p))"
    by simp
  with c show ?thesis by blast
qed

theorem on_time_iff_completed_and_not_late_witness:
  "parse_dates ex_lib ex_df = Some ex_parsed \<and> wf_frame ex_parsed \<and> len ex_parsed = 4
   \<and> getitem ex_parsed ''ActualEnd'' = Some [Date 80, Date 120, NA, Date 150]
   \<and> getitem ex_parsed ''PlannedEnd'' = Some [Date 90, Date 90, Date 181, NA]
   \<and> (\<exists>df' on_time. derive_helpers ex_parsed = Some df'
        \<and> getitem df' ''Completed'' = Some [Flag True, Flag True, Flag True, Flag False]
        \<and> getitem df' ''OnTime'' = Some on_time
        \<and> on_time ! 0 = Flag True \<and> on_time ! 1 = Flag False)"
proof -
  let ?d = "the (derive_helpers ex_parsed)"
  have p: "parse_dates ex_lib ex_df = Some ex_parsed" by code_simp
  have wf: "wf_frame ex_parsed" by code_simp
  have n: "len ex_parsed = 4" by code_simp
  have ae: "getitem ex_parsed ''ActualEnd'' = Some [Date 80, Date 120, NA, Date 150]"
    by code_simp
  have pe: "getitem ex_parsed ''PlannedEnd'' = Some [Date 90, Date 90, Date 181, NA]"
    by code_simp
  have d: "derive_helpers ex_parsed = Some ?d" by code_simp
  have c: "getitem ?d ''Completed'' = Some [Flag True, Flag True, Flag True, Flag False]"
    by code_simp
  have i0: "0 < len ex_parsed" and i1: "1 < len ex_parsed" by (simp_all add: n)
  from on_time_iff_completed_and_not_late [OF d wf i0 ae pe] c
  obtain on_time where o: "getitem ?d ''OnTime'' = Some on_time" and o0: "on_time ! 0 = Flag True"
    by auto
  from on_time_iff_completed_and_not_late [OF d wf i1 ae pe] c o
  have o1: "on_time ! 1 = Flag False" by auto
  from d c o o0 o1 have "\<exists>df' on_time. derive_helpers ex_parsed = Some df'
        \<and> getitem df' ''Completed'' = Some [Flag True, Flag True, Flag True, Flag False]
        \<and> getitem df' ''OnTime'' = Some on_time
        \<and> on_time ! 0 = Flag True \<and> on_time ! 1 = Flag False"
    by blast
  with p wf n ae pe show ?thesis by (simp only: simp_thms)
qed

subsection \<open>The on-time share\<close>









subsection \<open>Filtering\<close>

lemma select_rows_Cons:
  "select_rows (x # xs) (m # ms) = (if m = Flag True then [x] else []) @ select_rows xs ms"
  by (simp add: select_rows_def)

lemma select_rows_positions:
  "length xs = n \<Longrightarrow>
     select_rows xs (map (\<lambda>i. Flag (P i)) [0..<n]) = map (nth xs) (filter P [0..<n])"
proof (induction xs arbitrary: n P)
  case Nil
  then show ?case by (simp add: select_rows_def)
next
  case (Cons x xs)
  then obtain k where n: "n = Suc k" and k: "length xs = k" by (cases n) auto
  have u: "[0..<Suc k] = 0 # map Suc [0..<k]"
    by (simp add: upt_conv_Cons map_Suc_upt del: upt_Suc)
  have "select_rows xs (map (\<lambda>i. Flag (P (Suc i))) [0..<k])
      = map (nth xs) (filter (\<lambda>i. P (Suc i)) [0..<k])"
    using Cons.IH [OF k, of "\<lambda>i. P (Suc i)"] .
  then show ?case
    unfolding n u
    by (simp add: select_rows_Cons filter_map comp_def del: upt_Suc)
qed

lemma loc_mask_positions:
  assumes "wf_frame df"
  shows "loc_mask df (map (\<lambda>i. Flag (P i)) [0..<len df]) = rows_at df (filter P [0..<len df])"
proof -
  have "select_rows s (map (\<lambda>i. Flag (P i)) [0..<len df]) = map (nth s) (filter P [0..<len df])"
    if "(c, s) \<in> set (cols df)" for c s
  proof (rule select_rows_positions)
    from assms that show "length s = len df" by (auto simp: wf_frame_def list_all_iff)
  qed
  then have "map (\<lambda>(c, s). (c, select_rows s (map (\<lambda>i. Flag (P i)) [0..<len df]))) (cols df)
      = map (\<lambda>(c, s). (c, map (nth s) (filter P [0..<len df]))) (cols df)"
    by (intro map_cong) auto
  moreover have "select_rows (index df) (map (\<lambda>i. Flag (P i)) [0..<len df])
      = map (nth (index df)) (filter P [0..<len df])"
    by (rule select_rows_positions) (simp add: len_def)
  ultimately show ?thesis by (simp add: loc_mask_def rows_at_def)
qed

lemma rows_at_all:
  assumes "wf_frame df"
  shows "rows_at df [0..<len df] = df"
proof -
  have "map (nth s) [0..<len df] = s" if "(c, s) \<in> set (cols df)" for c s
  proof -
    from assms that have "length s = len df" by (auto simp: wf_frame_def list_all_iff)
    with map_nth [of s] show ?thesis by simp
  qed
  then have "map (\<lambda>(c, s). (c, map (nth s) [0..<len df])) (cols df) = map (\<lambda>p. p) (cols df)"
    by (intro map_cong) auto
  moreover have "map (nth (index df)) [0..<len df] = index df"
    by (simp add: len_def map_nth)
  ultimately show ?thesis by (simp add: rows_at_def)
qed

lemma and_isin_positions:
  assumes "getitem df c = Some s" and "length s = n"
  shows "and_isin df c sel (map (\<lambda>i. Flag (P i)) [0..<n])
     = Some (map (\<lambda>i. Flag (P i \<and> (sel = [] \<or> s ! i \<in> set sel))) [0..<n])"
proof (cases "sel = []")
  case True
  then show ?thesis by (simp add: and_isin_def)
next
  case False
  have "and_s (map (\<lambda>i. Flag (P i)) [0..<n]) (isin s sel)
      = map (\<lambda>i. Flag (P i \<and> s ! i \<in> set sel)) [0..<n]"
    using assms(2) by (intro nth_equalityI) (simp_all add: and_s_def isin_def)
  with False assms(1) show ?thesis by (simp add: and_isin_def)
qed

lemma filter_mask_positions:
  assumes "wf_frame df"
    and t: "getitem df ''Track'' = Some tr" and c: "getitem df ''Category'' = Some ca"
    and m: "getitem df ''Module'' = Some mo" and q: "getitem df ''Quarter'' = Some qu"
    and s: "getitem df ''Status'' = Some st"
  shows "filter_mask w df = Some (map (\<lambda>i. Flag (passes w df i)) [0..<len df])"
proof -
  let ?n = "len df"
  have l: "length tr = ?n" "length ca = ?n" "length mo = ?n" "length qu = ?n" "length st = ?n"
    using assms by (simp_all add: wf_getitem_length)
  have 0: "replicate ?n (Flag True) = map (\<lambda>i. Flag True) [0..<?n]"
    by (simp add: map_replicate_const)
  have p: "passes w df = (\<lambda>i. ((((True \<and> (track_f w = [] \<or> tr ! i \<in> set (track_f w)))
        \<and> (cat_f w = [] \<or> ca ! i \<in> set (cat_f w)))
        \<and> (mod_f w = [] \<or> mo ! i \<in> set (mod_f w)))
        \<and> (qtr_f w = [] \<or> qu ! i \<in> set (qtr_f w)))
        \<and> (status_f w = [] \<or> st ! i \<in> set (status_f w)))"
    by (rule ext) (simp add: passes_def t c m q s)
  show ?thesis
    unfolding filter_mask_def Let_def 0 p
    by (simp only: and_isin_positions [OF t l(1)] and_isin_positions [OF c l(2)]
        and_isin_positions [OF m l(3)] and_isin_positions [OF q l(4)]
        and_isin_positions [OF s l(5)] bind.bind_lunit)
qed

text \<open>
  C4. The filtered table is the table's rows, in order, at exactly the positions that
  pass: a row is kept if and only if, for each of the five fields with a non-empty
  selection, its value is in the selection. With all five selections empty every row
  passes and the filtered table is the table itself.
\<close>

theorem filtered_rows_iff_selected:
  assumes "wf_frame df"
    and "{''Track'', ''Category'', ''Module'', ''Quarter'', ''Status''} \<subseteq> set (columns df)"
  shows "filtered w df = Some (rows_at df (filter (passes w df) [0..<len df]))
     \<and> (distinct (index df) \<longrightarrow>
          (\<forall>i < len df. (index df ! i \<in> set (index (rows_at df (filter (passes w df) [0..<len df]))))
              = passes w df i))
     \<and> (\<forall>i. passes w df i =
          ((track_f w \<noteq> [] \<longrightarrow> (\<exists>s. getitem df ''Track'' = Some s \<and> s ! i \<in> set (track_f w)))
         \<and> (cat_f w \<noteq> [] \<longrightarrow> (\<exists>s. getitem df ''Category'' = Some s \<and> s ! i \<in> set (cat_f w)))
         \<and> (mod_f w \<noteq> [] \<longrightarrow> (\<exists>s. getitem df ''Module'' = Some s \<and> s ! i \<in> set (mod_f w)))
         \<and> (qtr_f w \<noteq> [] \<longrightarrow> (\<exists>s. getitem df ''Quarter'' = Some s \<and> s ! i \<in> set (qtr_f w)))
         \<and> (status_f w \<noteq> [] \<longrightarrow> (\<exists>s. getitem df ''Status'' = Some s \<and> s ! i \<in> set (status_f w)))))
     \<and> (track_f w = [] \<and> cat_f w = [] \<and> mod_f w = [] \<and> qtr_f w = [] \<and> status_f w = []
          \<longrightarrow> filtered w df = Some df)"
proof -
  from assms(2) have five: "''Track'' \<in> set (columns df)" "''Category'' \<in> set (columns df)"
    "''Module'' \<in> set (columns df)" "''Quarter'' \<in> set (columns df)"
    "''Status'' \<in> set (columns df)"
    by simp_all
  from getitem_present [OF five(1)] obtain tr where g1: "getitem df ''Track'' = Some tr" ..
  from getitem_present [OF five(2)] obtain ca where g2: "getitem df ''Category'' = Some ca" ..
  from getitem_present [OF five(3)] obtain mo where g3: "getitem df ''Module'' = Some mo" ..
  from getitem_present [OF five(4)] obtain qu where g4: "getitem df ''Quarter'' = Some qu" ..
  from getitem_present [OF five(5)] obtain st where g5: "getitem df ''Status'' = Some st" ..
  note g = g1 g2 g3 g4 g5
  let ?ps = "filter (passes w df) [0..<len df]"
  have f: "filtered w df = Some (rows_at df ?ps)"
    by (simp add: filtered_def filter_mask_positions [OF assms(1) g]
        loc_mask_positions [OF assms(1)])
  have d: "(index df ! i \<in> set (index (rows_at df ?ps))) = passes w df i"
    if "distinct (index df)" "i < len df" for i
    using that by (auto simp: rows_at_def len_def nth_eq_iff_index_eq)
  have p: "passes w df i =
          ((track_f w \<noteq> [] \<longrightarrow> (\<exists>s. getitem df ''Track'' = Some s \<and> s ! i \<in> set (track_f w)))
         \<and> (cat_f w \<noteq> [] \<longrightarrow> (\<exists>s. getitem df ''Category'' = Some s \<and> s ! i \<in> set (cat_f w)))
         \<and> (mod_f w \<noteq> [] \<longrightarrow> (\<exists>s. getitem df ''Module'' = Some s \<and> s ! i \<in> set (mod_f w)))
         \<and> (qtr_f w \<noteq> [] \<longrightarrow> (\<exists>s. getitem df ''Quarter'' = Some s \<and> s ! i \<in> set (qtr_f w)))
         \<and> (status_f w \<noteq> [] \<longrightarrow> (\<exists>s. getitem df ''Status'' = Some s \<and> s ! i \<in> set (status_f w))))"
    for i
    by (auto simp: passes_def g)
  have a: "filtered w df = Some df"
    if "track_f w = [] \<and> cat_f w = [] \<and> mod_f w = [] \<and> qtr_f w = [] \<and> status_f w = []"
  proof -
    from that have "passes w df = (\<lambda>i. True)" by (intro ext) (simp add: passes_def)
    with f show ?thesis by (simp add: rows_at_all [OF assms(1)])
  qed
  from f d p a show ?thesis by (intro conjI allI impI)
qed

theorem filtered_rows_iff_selected_witness:
  "wf_frame ex_df
   \<and> {''Track'', ''Category'', ''Module'', ''Quarter'', ''Status''} \<subseteq> set (columns ex_df)
   \<and> track_f ex_world = [Text ''AI'']
   \<and> getitem ex_df ''Track'' = Some [Text ''AI'', Text ''DDE'', Text ''AI'', Text ''AI'']
   \<and> filter (passes ex_world ex_df) [0..<len ex_df] = [0, 2, 3]
   \<and> filtered ex_world ex_df = Some (rows_at ex_df [0, 2, 3])
   \<and> getitem (rows_at ex_df [0, 2, 3]) ''Initiative''
        = Some [Text ''Search'', Text ''Ranker'', Text ''Export'']
   \<and> filtered ex_world_all ex_df = Some ex_df"
proof -
  have wf: "wf_frame ex_df" by code_simp
  have five: "{''Track'', ''Category'', ''Module'', ''Quarter'', ''Status''} \<subseteq> set (columns ex_df)"
    by code_simp
  have t: "track_f ex_world = [Text ''AI'']" by code_simp
  have g: "getitem ex_df ''Track'' = Some [Text ''AI'', Text ''DDE'', Text ''AI'', Text ''AI'']"
    by code_simp
  have ps: "filter (passes ex_world ex_df) [0..<len ex_df] = [0, 2, 3]" by code_simp
  have i: "getitem (rows_at ex_df [0, 2, 3]) ''Initiative''
        = Some [Text ''Search'', Text ''Ranker'', Text ''Export'']"
    by code_simp
  have e: "track_f ex_world_all = [] \<and> cat_f ex_world_all = [] \<and> mod_f ex_world_all = []
      \<and> qtr_f ex_world_all = [] \<and> status_f ex_world_all = []"
    by code_simp
  from filtered_rows_iff_selected [OF wf five, of ex_world] ps
  have 1: "filtered ex_world ex_df = Some (rows_at ex_df [0, 2, 3])" by simp
  from filtered_rows_iff_selected [OF wf five, of ex_world_all] e
  have 2: "filtered ex_world_all ex_df = Some ex_df" by blast
  from wf five t g ps 1 i 2 show ?thesis by (intro conjI)
qed

subsection \<open>KPIs of an empty table\<close>

lemma fmt_zero: "fmt_1f True (Fin 0) = ''0.0''" "fmt_int_grouped (py_int 0) = ''0''"
  by code_simp+

text \<open>
  C10. When the filtered table has no rows, the KPI scalars are the fixed defaults: the
  completed-over-total text is \<open>0/0\<close>, total revenue, total effort and average break-even
  are 0, and the on-time percentage is \<open>None\<close>, which is displayed as \<open>N/A\<close>.
\<close>

theorem empty_table_kpis:
  assumes "wf_frame fdf" and "len fdf = 0"
    and "''Completed'' \<in> set (columns fdf)" and "''OnTime'' \<in> set (columns fdf)"
  shows "\<exists>k. compute_kpis fdf = Some k \<and> total k = 0 \<and> planned_vs_completed k = ''0/0''
     \<and> total_rev k = 0 \<and> total_effort k = 0 \<and> avg_breakeven k = Fin 0 \<and> ontime k = None
     \<and> metrics k =
         [Metric ''Initiatives Completed / Total'' ''0/0'',
          Metric ''Total Revenue Opportunity'' ''$0.0M'',
          Metric ''On-Time Delivery %'' ''N/A'',
          Metric ''Total Effort'' ''0'',
          Metric ''Avg Break-Even (mo)'' ''N/A'']"
proof -
  from getitem_present [OF assms(3)] obtain cc where cc: "getitem fdf ''Completed'' = Some cc" ..
  from getitem_present [OF assms(4)] obtain oc where oc: "getitem fdf ''OnTime'' = Some oc" ..
  from wf_getitem_length [OF assms(1) oc] assms(2) have e: "oc = []" by simp
  let ?k = "\<lparr>total = 0, completed = py_int (sum_s cc), planned_vs_completed = ''0/0'',
      total_rev = 0, total_effort = 0, avg_breakeven = Fin 0, ontime = None\<rparr>"
  have k: "compute_kpis fdf = Some ?k"
    by (simp add: compute_kpis_def Let_def cc oc e assms(2) any_s_def notna_def)
  have m: "metrics ?k =
         [Metric ''Initiatives Completed / Total'' ''0/0'',
          Metric ''Total Revenue Opportunity'' ''$0.0M'',
          Metric ''On-Time Delivery %'' ''N/A'',
          Metric ''Total Effort'' ''0'',
          Metric ''Avg Break-Even (mo)'' ''N/A'']"
    by (simp add: metrics_def fmt_zero del: fmt_1f.simps)
  from k m show ?thesis by (intro exI [of _ ?k]) simp
qed

theorem empty_table_kpis_witness:
  "(\<exists>parsed derived fdf k. parse_dates ex_lib ex_df = Some parsed
       \<and> derive_helpers parsed = Some derived
       \<and> filtered ex_world_nothing derived = Some fdf
       \<and> wf_frame fdf \<and> len fdf = 0
       \<and> compute_kpis fdf = Some k \<and> planned_vs_completed k = ''0/0''
       \<and> total_rev k = 0 \<and> total_effort k = 0 \<and> avg_breakeven k = Fin 0 \<and> ontime k = None)
   \<and> map_option (\<lambda>w'. take 5 (drop 5 (page w'))) (app ex_lib ex_world_nothing)
       = Some [Metric ''Initiatives Completed / Total'' ''0/0'',
               Metric ''Total Revenue Opportunity'' ''$0.0M'',
               Metric ''On-Time Delivery %'' ''N/A'',
               Metric ''Total Effort'' ''0'',
               Metric ''Avg Break-Even (mo)'' ''N/A'']"
proof -
  let ?d = "the (derive_helpers ex_parsed)"
  let ?f = "the (filtered ex_world_nothing ?d)"
  have p: "parse_dates ex_lib ex_df = Some ex_parsed" by code_simp
  have d: "derive_helpers ex_parsed = Some ?d" by code_simp
  have f: "filtered ex_world_nothing ?d = Some ?f" by code_simp
  have wf: "wf_frame ?f" by code_simp
  have l: "len ?f = 0" by code_simp
  have c: "''Completed'' \<in> set (columns ?f)" and o: "''OnTime'' \<in> set (columns ?f)"
    by code_simp+
  have a: "map_option (\<lambda>w'. take 5 (drop 5 (page w'))) (app ex_lib ex_world_nothing)
       = Some [Metric ''Initiatives Completed / Total'' ''0/0'',
               Metric ''Total Revenue Opportunity'' ''$0.0M'',
               Metric ''On-Time Delivery %'' ''N/A'',
               Metric ''Total Effort'' ''0'',
               Metric ''Avg Break-Even (mo)'' ''N/A'']"
    by code_simp
  from empty_table_kpis [OF wf l c o] obtain k where
    "compute_kpis ?f = Some k \<and> planned_vs_completed k = ''0/0''
       \<and> total_rev k = 0 \<and> total_effort k = 0 \<and> avg_breakeven k = Fin 0 \<and> ontime k = None"
    by blast
  with p d f wf l have "\<exists>parsed derived fdf k. parse_dates ex_lib ex_df = Some parsed
       \<and> derive_helpers parsed = Some derived
       \<and> filtered ex_world_nothing derived = Some fdf
       \<and> wf_frame fdf \<and> len fdf = 0
       \<and> compute_kpis fdf = Some k \<and> planned_vs_completed k = ''0/0''
       \<and> total_rev k = 0 \<and> total_effort k = 0 \<and> avg_breakeven k = Fin 0 \<and> ontime k = None"
    by (intro exI [of _ ex_parsed] exI [of _ ?d] exI [of _ ?f] exI [of _ k]) (simp only: simp_thms)
  with a show ?thesis by (intro conjI)
qed

end
